theory Spec2Isabelle
  imports Complex_Main "HOL-Library.Char_ord"
begin

section \<open>Service B: the orchestration handler\<close>

text \<open>
  This theory embeds \<^verbatim>\<open>(a *app) handler\<close> of
  \<^verbatim>\<open>service-b-orchestration/cmd/main.go\<close>. The handler receives a request path,
  validates the postal code in it, asks ViaCEP for the locality, asks WeatherAPI for the
  temperature of that locality, converts it and writes one response.

  What the handler does to the outside world is made explicit:
  \<^item> the two outbound calls, the spans, the log lines and the deferred closing of the
    response bodies are recorded, in program order, in a list of events;
  \<^item> what is written to the \<^verbatim>\<open>http.ResponseWriter\<close> is returned as a value;
  \<^item> a run-time panic (slicing an empty path, dereferencing a nil pointer) is an outcome
    of its own: the deferred calls still run, nothing is written.

  The handler is one Go function; here it is cut at its three \<^verbatim>\<open>defer\<close> statements
  into \<open>handler\<close>, \<open>handler_body\<close>, \<open>on_viacep_response\<close> and
  \<open>on_weather_response\<close>, so that each deferred call is appended after the events of
  the code that follows it. Local variables keep their names.

  The Go standard library is modelled by its documented behaviour at the points where
  the handler calls it:
  \<^item> \<^verbatim>\<open>float64\<close> values are the rational numbers they stand for; rounding, overflow
    to infinity and the sign of zero are outside the model, and a number in a body is
    taken to lie in the range of \<^verbatim>\<open>float64\<close> (Go reports one beyond it as an
    \<^verbatim>\<open>UnmarshalTypeError\<close>);
  \<^item> the lexical layer of \<^verbatim>\<open>encoding/json\<close> is outside the model: a body read from a
    provider is either not JSON text at all, or the JSON value the text denotes (object
    members in document order, duplicates kept, strings already unescaped to bytes);
    how \<^verbatim>\<open>json.Unmarshal\<close> stores such a value into the two response structs is
    modelled;
  \<^item> \<^verbatim>\<open>json.NewEncoder(w).Encode(response)\<close> writes the JSON text of the struct and a
    newline; the model keeps the struct that is encoded. A failing write to the client
    is only logged by the handler and is outside the model;
  \<^item> whether \<^verbatim>\<open>http.NewRequestWithContext\<close> accepts a URL, and what
    \<^verbatim>\<open>http.DefaultClient.Do\<close> returns for it, is given by the environment. The
    handler discards the error of \<^verbatim>\<open>NewRequestWithContext\<close>; on a rejected URL the
    request is nil and \<^verbatim>\<open>Do\<close> panics;
  \<^item> cancellation through the request context is outside the model: a cancelled call is
    a call that returns an error.
\<close>

subsection \<open>Data\<close>

record ViaCEPResponse =
  Localidade :: string
  Erro :: bool

text \<open>The anonymous struct \<^verbatim>\<open>Current\<close> of \<^verbatim>\<open>WeatherAPIResponse\<close>; its field
  \<^verbatim>\<open>TempC\<close> is named by its JSON tag here, since \<^verbatim>\<open>TempResponse\<close> has a field
  \<^verbatim>\<open>TempC\<close> too.\<close>

record CurrentStruct =
  temp_c :: rat

record WeatherAPIResponse =
  Current :: CurrentStruct

record TempResponse =
  City :: string
  TempC :: rat
  TempF :: rat
  TempK :: rat

record Config =
  WeatherAPIKey :: string
  ServerPort :: string

text \<open>\<^verbatim>\<open>cfg\<close> is a pointer: the tests build \<^verbatim>\<open>&app{}\<close>, where it is nil.\<close>

record app =
  cfg :: "Config option"

datatype json =
    JNull
  | JBool bool
  | JNumber rat
  | JString string
  | JArray "json list"
  | JObject "(string \<times> json) list"

text \<open>The bytes \<^verbatim>\<open>io.ReadAll(resp.Body)\<close> returned (its error is discarded).\<close>

datatype payload = NotJSON | JSONText json

record http_Response =
  StatusCode :: nat
  Body :: payload

datatype error = UrlError string | SyntaxError | UnmarshalTypeError

record env =
  NewRequest :: "string \<Rightarrow> bool"
  Do :: "string \<Rightarrow> error + http_Response"

datatype logarg = Str string | Err error | Val TempResponse

datatype event =
    SpanStart string
  | SpanEnd string
  | ClientDo string
  | BodyClose string
  | LogPrintf string "logarg list"

datatype written = Plain string | JSON TempResponse

record response =
  Code :: nat
  ContentType :: string
  Output :: written

datatype panic = SliceBoundsOutOfRange | NilPointerDereference

datatype outcome = Responded response | Panicked panic

type_synonym run = "event list \<times> outcome"

subsection \<open>Library functions\<close>

text \<open>\<^verbatim>\<open>regexp.MustCompile(`^[0-9]{8}$`).MatchString\<close>: in Go's syntax \<^verbatim>\<open>$\<close>
  without the \<^verbatim>\<open>m\<close> flag matches at the end of the text only, and \<^verbatim>\<open>[0-9]\<close> is
  the ten ASCII digits.\<close>

definition digit :: "char \<Rightarrow> bool" where
  "digit c = (CHR ''0'' \<le> c \<and> c \<le> CHR ''9'')"

fun repeat_class :: "nat \<Rightarrow> (char \<Rightarrow> bool) \<Rightarrow> string \<Rightarrow> string option" where
  "repeat_class 0 p s = Some s"
| "repeat_class (Suc n) p [] = None"
| "repeat_class (Suc n) p (c # s) = (if p c then repeat_class n p s else None)"

definition MatchString :: "string \<Rightarrow> bool" where
  "MatchString cep = (repeat_class 8 digit cep = Some [])"

text \<open>\<^verbatim>\<open>http.Error(w, msg, code)\<close>: plain text, the message and a newline.\<close>

definition http_Error :: "string \<Rightarrow> nat \<Rightarrow> response" where
  "http_Error msg code =
     \<lparr>Code = code, ContentType = ''text/plain; charset=utf-8'', Output = Plain (msg @ [CHR 0x0A])\<rparr>"

text \<open>\<^verbatim>\<open>url.QueryEscape\<close>: letters, digits and \<^verbatim>\<open>-_.~\<close> stay, a space becomes
  \<^verbatim>\<open>+\<close>, every other byte becomes \<^verbatim>\<open>%XX\<close> in upper-case hexadecimal.\<close>

definition shouldEscape :: "char \<Rightarrow> bool" where
  "shouldEscape c =
     (if (CHR ''a'' \<le> c \<and> c \<le> CHR ''z'') \<or> (CHR ''A'' \<le> c \<and> c \<le> CHR ''Z'')
          \<or> (CHR ''0'' \<le> c \<and> c \<le> CHR ''9'') then False
      else if c = CHR ''-'' \<or> c = CHR ''_'' \<or> c = CHR ''.'' \<or> c = CHR ''~'' then False
      else True)"

definition upperhex :: string where
  "upperhex = ''0123456789ABCDEF''"

definition escape_byte :: "char \<Rightarrow> string" where
  "escape_byte c =
     (if shouldEscape c then
        (if c = CHR '' '' then ''+''
         else [CHR ''%'', upperhex ! (of_char c div 16), upperhex ! (of_char c mod 16)])
      else [c])"

definition QueryEscape :: "string \<Rightarrow> string" where
  "QueryEscape s = concat (map escape_byte s)"

text \<open>\<^verbatim>\<open>json.Unmarshal\<close> into a struct. A member's key selects the field whose tag it
  equals up to the case of letters (none of the four tags has a letter with a case
  variant outside ASCII); members are stored in document order, so the last of several
  wins; a member with another key is skipped; \<^verbatim>\<open>null\<close> leaves the target as it is;
  a value of another JSON type than the target's is an \<^verbatim>\<open>UnmarshalTypeError\<close>. (Go
  goes on decoding after such an error and returns the first one at the end; the handler
  drops the struct then, so the model returns the error at once.)\<close>

definition lower :: "char \<Rightarrow> char" where
  "lower c = (if CHR ''A'' \<le> c \<and> c \<le> CHR ''Z'' then char_of (of_char c + (32::nat)) else c)"

definition equalFold :: "string \<Rightarrow> string \<Rightarrow> bool" where
  "equalFold k tag = (map lower k = map lower tag)"

definition unmarshal_string :: "json \<Rightarrow> string \<Rightarrow> error + string" where
  "unmarshal_string j old =
     (case j of JNull \<Rightarrow> Inr old | JString s \<Rightarrow> Inr s | _ \<Rightarrow> Inl UnmarshalTypeError)"

definition unmarshal_bool :: "json \<Rightarrow> bool \<Rightarrow> error + bool" where
  "unmarshal_bool j old =
     (case j of JNull \<Rightarrow> Inr old | JBool b \<Rightarrow> Inr b | _ \<Rightarrow> Inl UnmarshalTypeError)"

definition unmarshal_float64 :: "json \<Rightarrow> rat \<Rightarrow> error + rat" where
  "unmarshal_float64 j old =
     (case j of JNull \<Rightarrow> Inr old | JNumber x \<Rightarrow> Inr x | _ \<Rightarrow> Inl UnmarshalTypeError)"

fun ViaCEP_members :: "(string \<times> json) list \<Rightarrow> ViaCEPResponse \<Rightarrow> error + ViaCEPResponse" where
  "ViaCEP_members [] v = Inr v"
| "ViaCEP_members ((k, j) # ms) v =
     (if equalFold k ''localidade'' then
        (case unmarshal_string j (Localidade v) of
           Inl e \<Rightarrow> Inl e
         | Inr s \<Rightarrow> ViaCEP_members ms (v\<lparr>Localidade := s\<rparr>))
      else if equalFold k ''erro'' then
        (case unmarshal_bool j (Erro v) of
           Inl e \<Rightarrow> Inl e
         | Inr b \<Rightarrow> ViaCEP_members ms (v\<lparr>Erro := b\<rparr>))
      else ViaCEP_members ms v)"

definition Unmarshal_ViaCEP :: "payload \<Rightarrow> ViaCEPResponse \<Rightarrow> error + ViaCEPResponse" where
  "Unmarshal_ViaCEP body v =
     (case body of
        NotJSON \<Rightarrow> Inl SyntaxError
      | JSONText JNull \<Rightarrow> Inr v
      | JSONText (JObject ms) \<Rightarrow> ViaCEP_members ms v
      | JSONText _ \<Rightarrow> Inl UnmarshalTypeError)"

fun Current_members :: "(string \<times> json) list \<Rightarrow> CurrentStruct \<Rightarrow> error + CurrentStruct" where
  "Current_members [] c = Inr c"
| "Current_members ((k, j) # ms) c =
     (if equalFold k ''temp_c'' then
        (case unmarshal_float64 j (temp_c c) of
           Inl e \<Rightarrow> Inl e
         | Inr x \<Rightarrow> Current_members ms (c\<lparr>temp_c := x\<rparr>))
      else Current_members ms c)"

definition unmarshal_Current :: "json \<Rightarrow> CurrentStruct \<Rightarrow> error + CurrentStruct" where
  "unmarshal_Current j c =
     (case j of
        JNull \<Rightarrow> Inr c
      | JObject ms \<Rightarrow> Current_members ms c
      | _ \<Rightarrow> Inl UnmarshalTypeError)"

fun Weather_members ::
  "(string \<times> json) list \<Rightarrow> WeatherAPIResponse \<Rightarrow> error + WeatherAPIResponse" where
  "Weather_members [] w = Inr w"
| "Weather_members ((k, j) # ms) w =
     (if equalFold k ''current'' then
        (case unmarshal_Current j (Current w) of
           Inl e \<Rightarrow> Inl e
         | Inr c \<Rightarrow> Weather_members ms (w\<lparr>Current := c\<rparr>))
      else Weather_members ms w)"

definition Unmarshal_Weather :: "payload \<Rightarrow> WeatherAPIResponse \<Rightarrow> error + WeatherAPIResponse" where
  "Unmarshal_Weather body w =
     (case body of
        NotJSON \<Rightarrow> Inl SyntaxError
      | JSONText JNull \<Rightarrow> Inr w
      | JSONText (JObject ms) \<Rightarrow> Weather_members ms w
      | JSONText _ \<Rightarrow> Inl UnmarshalTypeError)"

subsection \<open>The handler\<close>

text \<open>Events that happen before a continuation runs, and a deferred call that runs
  after it, whatever its outcome.\<close>

definition after :: "event list \<Rightarrow> run \<Rightarrow> run" where
  "after evs r = (evs @ fst r, snd r)"

definition deferred :: "event \<Rightarrow> run \<Rightarrow> run" where
  "deferred ev r = (fst r @ [ev], snd r)"

definition viaCepURL :: "string \<Rightarrow> string" where
  "viaCepURL cep = ''https://viacep.com.br/ws/'' @ cep @ ''/json/''"

definition weatherURL :: "string \<Rightarrow> string \<Rightarrow> string" where
  "weatherURL weatherAPIKey escapedCity =
     ''http://api.weatherapi.com/v1/current.json?key='' @ weatherAPIKey @ ''&q='' @ escapedCity"

text \<open>Lines 157 to 184: the weather body is decoded, the temperature is converted and
  the response is written.\<close>

definition on_weather_response :: "string \<Rightarrow> ViaCEPResponse \<Rightarrow> http_Response \<Rightarrow> run" where
  "on_weather_response cep viaCepData resp =
     (case Unmarshal_Weather (Body resp) \<lparr>Current = \<lparr>temp_c = 0\<rparr>\<rparr> of
        Inl err \<Rightarrow>
          ([LogPrintf ''Error unmarshalling WeatherAPI response: %v'' [Err err]],
           Responded (http_Error ''error unmarshalling WeatherAPI response'' 500))
      | Inr weatherData \<Rightarrow>
          (let tempC = temp_c (Current weatherData);
               tempF = tempC * 1.8 + 32;
               tempK = tempC + 273;
               response = \<lparr>City = Localidade viaCepData, TempC = tempC, TempF = tempF, TempK = tempK\<rparr>
           in ([LogPrintf ''Response for CEP %s: %+v'' [Str cep, Val response]],
               Responded \<lparr>Code = 200, ContentType = ''application/json'', Output = JSON response\<rparr>)))"

text \<open>Lines 125 to 155: the ViaCEP body is decoded and classified, then WeatherAPI is
  called inside its span.\<close>

definition on_viacep_response :: "app \<Rightarrow> env \<Rightarrow> string \<Rightarrow> http_Response \<Rightarrow> run" where
  "on_viacep_response a e cep resp =
     (case Unmarshal_ViaCEP (Body resp) \<lparr>Localidade = [], Erro = False\<rparr> of
        Inl err \<Rightarrow>
          ([LogPrintf ''Error unmarshalling ViaCEP response: %v'' [Err err]],
           Responded (http_Error ''error unmarshalling ViaCEP response'' 500))
      | Inr viaCepData \<Rightarrow>
          if Erro viaCepData \<or> Localidade viaCepData = [] then
            ([LogPrintf ''CEP not found or missing localidade: %s'' [Str cep]],
             Responded (http_Error ''can not find zipcode'' 404))
          else
            (let escapedCity = QueryEscape (Localidade viaCepData) in
             case cfg a of
               None \<Rightarrow> ([], Panicked NilPointerDereference)
             | Some c \<Rightarrow>
                 (let weatherAPIKey = WeatherAPIKey c;
                      url = weatherURL weatherAPIKey escapedCity
                  in if \<not> NewRequest e url then
                       ([SpanStart ''call-weather-api''], Panicked NilPointerDereference)
                     else
                       after [SpanStart ''call-weather-api'', ClientDo url, SpanEnd ''call-weather-api'']
                         (case Do e url of
                            Inl err \<Rightarrow>
                              ([LogPrintf ''Error fetching from WeatherAPI: %v'' [Err err]],
                               Responded (http_Error ''error fetching from WeatherAPI'' 500))
                          | Inr resp' \<Rightarrow>
                              deferred (BodyClose url) (on_weather_response cep viaCepData resp')))))"

text \<open>Lines 97 to 123: the postal code is cut from the path and validated, then ViaCEP
  is called inside its span.\<close>

definition handler_body :: "app \<Rightarrow> env \<Rightarrow> string \<Rightarrow> run" where
  "handler_body a e path =
     (case path of
        [] \<Rightarrow> ([], Panicked SliceBoundsOutOfRange)
      | _ # cep \<Rightarrow>
          after [LogPrintf ''Received request for CEP: %s'' [Str cep]]
            (if \<not> MatchString cep then
               ([LogPrintf ''Invalid zipcode format: %s'' [Str cep]],
                Responded (http_Error ''invalid zipcode'' 422))
             else
               (let url = viaCepURL cep
                in if \<not> NewRequest e url then
                     ([SpanStart ''call-viacep-api''], Panicked NilPointerDereference)
                   else
                     after [SpanStart ''call-viacep-api'', ClientDo url, SpanEnd ''call-viacep-api'']
                       (case Do e url of
                          Inl err \<Rightarrow>
                            ([LogPrintf ''Error fetching from ViaCEP: %v'' [Err err]],
                             Responded (http_Error ''error fetching from ViaCEP'' 500))
                        | Inr resp \<Rightarrow>
                            deferred (BodyClose url) (on_viacep_response a e cep resp)))))"

text \<open>Lines 93 to 95: the parent span is started, and \<^verbatim>\<open>defer span.End()\<close> closes it
  after everything else.\<close>

definition handler :: "app \<Rightarrow> env \<Rightarrow> string \<Rightarrow> run" where
  "handler a e path =
     deferred (SpanEnd ''orchestration-handler'')
       (after [SpanStart ''orchestration-handler''] (handler_body a e path))"

subsection \<open>Observations on a run\<close>

text \<open>The URLs handed to \<^verbatim>\<open>http.DefaultClient.Do\<close>, in order.\<close>

fun calls :: "event list \<Rightarrow> string list" where
  "calls [] = []"
| "calls (ClientDo u # evs) = u # calls evs"
| "calls (_ # evs) = calls evs"


subsection \<open>Fixtures\<close>

text \<open>The inputs of \<^verbatim>\<open>main_test.go\<close>: the configuration with the key
  \<^verbatim>\<open>test-key\<close>, and a mock of the two providers that answers by the prefix of the
  URL. The locality is the UTF-8 text of the test's city.\<close>

definition saoPaulo :: string where
  "saoPaulo = ''S'' @ [CHR 0xC3, CHR 0xA3] @ ''o Paulo''"

definition test_app :: app where
  "test_app = \<lparr>cfg = Some \<lparr>WeatherAPIKey = ''test-key'', ServerPort = []\<rparr>\<rparr>"

definition ok :: "payload \<Rightarrow> error + http_Response" where
  "ok b = Inr \<lparr>StatusCode = 200, Body = b\<rparr>"

definition mock :: "(error + http_Response) \<Rightarrow> (error + http_Response) \<Rightarrow> env" where
  "mock geo wea =
     \<lparr>NewRequest = (\<lambda>u. True),
      Do = (\<lambda>u. if take 25 u = ''https://viacep.com.br/ws/'' then geo else wea)\<rparr>"

definition localidade_body :: "string \<Rightarrow> payload" where
  "localidade_body city = JSONText (JObject [(''localidade'', JString city)])"

definition temp_c_body :: "rat \<Rightarrow> payload" where
  "temp_c_body t = JSONText (JObject [(''current'', JObject [(''temp_c'', JNumber t)])])"

section \<open>Auxiliary facts\<close>

subsection \<open>The postal-code pattern\<close>

lemma of_char_digit_cases:
  assumes "48 \<le> (of_char c :: nat)" "(of_char c :: nat) \<le> 57"
  shows "c \<in> set ''0123456789''"
proof -
  define n :: nat where "n = of_char c"
  from assms have "n = 48 \<or> n = 49 \<or> n = 50 \<or> n = 51 \<or> n = 52 \<or> n = 53 \<or> n = 54 \<or> n = 55
      \<or> n = 56 \<or> n = 57"
    unfolding n_def by arith
  then have "of_char c = (of_char CHR ''0'' :: nat) \<or> of_char c = (of_char CHR ''1'' :: nat)
      \<or> of_char c = (of_char CHR ''2'' :: nat) \<or> of_char c = (of_char CHR ''3'' :: nat)
      \<or> of_char c = (of_char CHR ''4'' :: nat) \<or> of_char c = (of_char CHR ''5'' :: nat)
      \<or> of_char c = (of_char CHR ''6'' :: nat) \<or> of_char c = (of_char CHR ''7'' :: nat)
      \<or> of_char c = (of_char CHR ''8'' :: nat) \<or> of_char c = (of_char CHR ''9'' :: nat)"
    unfolding n_def by simp
  then show ?thesis
    unfolding of_char_eq_iff by simp
qed

lemma digit_iff: "digit c \<longleftrightarrow> c \<in> set ''0123456789''"
proof
  assume "digit c"
  then show "c \<in> set ''0123456789''"
    by (intro of_char_digit_cases) (simp_all add: digit_def less_eq_char_def)
next
  assume "c \<in> set ''0123456789''"
  then have "c = CHR ''0'' \<or> c = CHR ''1'' \<or> c = CHR ''2'' \<or> c = CHR ''3'' \<or> c = CHR ''4''
     \<or> c = CHR ''5'' \<or> c = CHR ''6'' \<or> c = CHR ''7'' \<or> c = CHR ''8'' \<or> c = CHR ''9''"
    by simp
  then show "digit c" by (elim disjE) (simp_all add: digit_def less_eq_char_def)
qed

lemma repeat_class_Some:
  "repeat_class n p s = Some r \<longleftrightarrow> (\<exists>t. s = t @ r \<and> length t = n \<and> (\<forall>c \<in> set t. p c))"
proof (induction n p s rule: repeat_class.induct)
  case (1 p s)
  then show ?case by auto
next
  case (2 n p)
  then show ?case by auto
next
  case (3 n p c s)
  show ?case
  proof (cases "p c")
    case True
    show ?thesis
    proof
      assume "repeat_class (Suc n) p (c # s) = Some r"
      with True 3 obtain t where "s = t @ r" "length t = n" "\<forall>c \<in> set t. p c" by auto
      with True have "c # s = (c # t) @ r \<and> length (c # t) = Suc n \<and> (\<forall>x \<in> set (c # t). p x)" by simp
      then show "\<exists>t. c # s = t @ r \<and> length t = Suc n \<and> (\<forall>c \<in> set t. p c)" by blast
    next
      assume "\<exists>t. c # s = t @ r \<and> length t = Suc n \<and> (\<forall>c \<in> set t. p c)"
      then obtain t where t: "c # s = t @ r" "length t = Suc n" "\<forall>c \<in> set t. p c" by blast
      then obtain t' where "t = c # t'" by (cases t) auto
      with t have "s = t' @ r \<and> length t' = n \<and> (\<forall>c \<in> set t'. p c)" by auto
      with True 3 show "repeat_class (Suc n) p (c # s) = Some r" by auto
    qed
  next
    case False
    then have "repeat_class (Suc n) p (c # s) = None" by simp
    moreover have "\<not> (\<exists>t. c # s = t @ r \<and> length t = Suc n \<and> (\<forall>c \<in> set t. p c))"
    proof
      assume "\<exists>t. c # s = t @ r \<and> length t = Suc n \<and> (\<forall>c \<in> set t. p c)"
      then obtain t where t: "c # s = t @ r" "length t = Suc n" "\<forall>c \<in> set t. p c" by blast
      then obtain t' where "t = c # t'" by (cases t) auto
      with t False show False by auto
    qed
    ultimately show ?thesis by simp
  qed
qed

lemma MatchString_iff: "MatchString cep \<longleftrightarrow> length cep = 8 \<and> (\<forall>c \<in> set cep. digit c)"
  by (auto simp: MatchString_def repeat_class_Some)

lemma MatchString_digits:
  "MatchString cep \<longleftrightarrow> length cep = 8 \<and> (\<forall>c \<in> set cep. c \<in> set ''0123456789'')"
  unfolding MatchString_iff digit_iff ..

subsection \<open>The runs of the handler, path by path\<close>

lemmas handler_defs = handler_def handler_body_def on_viacep_response_def on_weather_response_def after_def deferred_def Let_def

lemma run_empty_path:
  "handler a e [] =
     ([SpanStart ''orchestration-handler'', SpanEnd ''orchestration-handler''],
      Panicked SliceBoundsOutOfRange)"
  by (simp add: handler_defs)

lemma run_invalid:
  assumes "\<not> MatchString cep"
  shows "handler a e (c # cep) =
     ([SpanStart ''orchestration-handler'',
       LogPrintf ''Received request for CEP: %s'' [Str cep],
       LogPrintf ''Invalid zipcode format: %s'' [Str cep],
       SpanEnd ''orchestration-handler''],
      Responded (http_Error ''invalid zipcode'' 422))"
  using assms by (simp add: handler_defs)

lemma run_geocode_nil_request:
  assumes "MatchString cep" "\<not> NewRequest e (viaCepURL cep)"
  shows "handler a e (c # cep) =
     ([SpanStart ''orchestration-handler'',
       LogPrintf ''Received request for CEP: %s'' [Str cep],
       SpanStart ''call-viacep-api'',
       SpanEnd ''orchestration-handler''],
      Panicked NilPointerDereference)"
  using assms by (simp add: handler_defs)

lemma run_geocode_transport:
  assumes "MatchString cep" "NewRequest e (viaCepURL cep)" "Do e (viaCepURL cep) = Inl err"
  shows "handler a e (c # cep) =
     ([SpanStart ''orchestration-handler'',
       LogPrintf ''Received request for CEP: %s'' [Str cep],
       SpanStart ''call-viacep-api'', ClientDo (viaCepURL cep), SpanEnd ''call-viacep-api'',
       LogPrintf ''Error fetching from ViaCEP: %v'' [Err err],
       SpanEnd ''orchestration-handler''],
      Responded (http_Error ''error fetching from ViaCEP'' 500))"
  using assms by (simp add: handler_defs)

lemma run_geocode_decode:
  assumes "MatchString cep" "NewRequest e (viaCepURL cep)" "Do e (viaCepURL cep) = Inr resp"
    and "Unmarshal_ViaCEP (Body resp) \<lparr>Localidade = [], Erro = False\<rparr> = Inl err"
  shows "handler a e (c # cep) =
     ([SpanStart ''orchestration-handler'',
       LogPrintf ''Received request for CEP: %s'' [Str cep],
       SpanStart ''call-viacep-api'', ClientDo (viaCepURL cep), SpanEnd ''call-viacep-api'',
       LogPrintf ''Error unmarshalling ViaCEP response: %v'' [Err err],
       BodyClose (viaCepURL cep),
       SpanEnd ''orchestration-handler''],
      Responded (http_Error ''error unmarshalling ViaCEP response'' 500))"
  using assms by (simp add: handler_defs)

lemma run_not_found:
  assumes "MatchString cep" "NewRequest e (viaCepURL cep)" "Do e (viaCepURL cep) = Inr resp"
    and "Unmarshal_ViaCEP (Body resp) \<lparr>Localidade = [], Erro = False\<rparr> = Inr v"
    and "Erro v \<or> Localidade v = []"
  shows "handler a e (c # cep) =
     ([SpanStart ''orchestration-handler'',
       LogPrintf ''Received request for CEP: %s'' [Str cep],
       SpanStart ''call-viacep-api'', ClientDo (viaCepURL cep), SpanEnd ''call-viacep-api'',
       LogPrintf ''CEP not found or missing localidade: %s'' [Str cep],
       BodyClose (viaCepURL cep),
       SpanEnd ''orchestration-handler''],
      Responded (http_Error ''can not find zipcode'' 404))"
  using assms by (simp add: handler_defs)

lemma run_nil_cfg:
  assumes "MatchString cep" "NewRequest e (viaCepURL cep)" "Do e (viaCepURL cep) = Inr resp"
    and "Unmarshal_ViaCEP (Body resp) \<lparr>Localidade = [], Erro = False\<rparr> = Inr v"
    and "\<not> Erro v" "Localidade v \<noteq> []" "cfg a = None"
  shows "handler a e (c # cep) =
     ([SpanStart ''orchestration-handler'',
       LogPrintf ''Received request for CEP: %s'' [Str cep],
       SpanStart ''call-viacep-api'', ClientDo (viaCepURL cep), SpanEnd ''call-viacep-api'',
       BodyClose (viaCepURL cep),
       SpanEnd ''orchestration-handler''],
      Panicked NilPointerDereference)"
  using assms by (simp add: handler_defs)

lemma run_weather_nil_request:
  assumes "MatchString cep" "NewRequest e (viaCepURL cep)" "Do e (viaCepURL cep) = Inr resp"
    and "Unmarshal_ViaCEP (Body resp) \<lparr>Localidade = [], Erro = False\<rparr> = Inr v"
    and "\<not> Erro v" "Localidade v \<noteq> []" "cfg a = Some conf"
    and "\<not> NewRequest e (weatherURL (WeatherAPIKey conf) (QueryEscape (Localidade v)))"
  shows "handler a e (c # cep) =
     ([SpanStart ''orchestration-handler'',
       LogPrintf ''Received request for CEP: %s'' [Str cep],
       SpanStart ''call-viacep-api'', ClientDo (viaCepURL cep), SpanEnd ''call-viacep-api'',
       SpanStart ''call-weather-api'',
       BodyClose (viaCepURL cep),
       SpanEnd ''orchestration-handler''],
      Panicked NilPointerDereference)"
  using assms by (simp add: handler_defs)

lemma run_weather_transport:
  assumes "MatchString cep" "NewRequest e (viaCepURL cep)" "Do e (viaCepURL cep) = Inr resp"
    and "Unmarshal_ViaCEP (Body resp) \<lparr>Localidade = [], Erro = False\<rparr> = Inr v"
    and "\<not> Erro v" "Localidade v \<noteq> []" "cfg a = Some conf"
    and "NewRequest e (weatherURL (WeatherAPIKey conf) (QueryEscape (Localidade v)))"
    and "Do e (weatherURL (WeatherAPIKey conf) (QueryEscape (Localidade v))) = Inl err"
  shows "handler a e (c # cep) =
     ([SpanStart ''orchestration-handler'',
       LogPrintf ''Received request for CEP: %s'' [Str cep],
       SpanStart ''call-viacep-api'', ClientDo (viaCepURL cep), SpanEnd ''call-viacep-api'',
       SpanStart ''call-weather-api'',
       ClientDo (weatherURL (WeatherAPIKey conf) (QueryEscape (Localidade v))),
       SpanEnd ''call-weather-api'',
       LogPrintf ''Error fetching from WeatherAPI: %v'' [Err err],
       BodyClose (viaCepURL cep),
       SpanEnd ''orchestration-handler''],
      Responded (http_Error ''error fetching from WeatherAPI'' 500))"
  using assms by (simp add: handler_defs)

lemma run_weather_decode:
  assumes "MatchString cep" "NewRequest e (viaCepURL cep)" "Do e (viaCepURL cep) = Inr resp"
    and "Unmarshal_ViaCEP (Body resp) \<lparr>Localidade = [], Erro = False\<rparr> = Inr v"
    and "\<not> Erro v" "Localidade v \<noteq> []" "cfg a = Some conf"
    and "NewRequest e (weatherURL (WeatherAPIKey conf) (QueryEscape (Localidade v)))"
    and "Do e (weatherURL (WeatherAPIKey conf) (QueryEscape (Localidade v))) = Inr resp'"
    and "Unmarshal_Weather (Body resp') \<lparr>Current = \<lparr>temp_c = 0\<rparr>\<rparr> = Inl err"
  shows "handler a e (c # cep) =
     ([SpanStart ''orchestration-handler'',
       LogPrintf ''Received request for CEP: %s'' [Str cep],
       SpanStart ''call-viacep-api'', ClientDo (viaCepURL cep), SpanEnd ''call-viacep-api'',
       SpanStart ''call-weather-api'',
       ClientDo (weatherURL (WeatherAPIKey conf) (QueryEscape (Localidade v))),
       SpanEnd ''call-weather-api'',
       LogPrintf ''Error unmarshalling WeatherAPI response: %v'' [Err err],
       BodyClose (weatherURL (WeatherAPIKey conf) (QueryEscape (Localidade v))),
       BodyClose (viaCepURL cep),
       SpanEnd ''orchestration-handler''],
      Responded (http_Error ''error unmarshalling WeatherAPI response'' 500))"
  using assms by (simp add: handler_defs)

lemma run_success:
  assumes "MatchString cep" "NewRequest e (viaCepURL cep)" "Do e (viaCepURL cep) = Inr resp"
    and "Unmarshal_ViaCEP (Body resp) \<lparr>Localidade = [], Erro = False\<rparr> = Inr v"
    and "\<not> Erro v" "Localidade v \<noteq> []" "cfg a = Some conf"
    and "NewRequest e (weatherURL (WeatherAPIKey conf) (QueryEscape (Localidade v)))"
    and "Do e (weatherURL (WeatherAPIKey conf) (QueryEscape (Localidade v))) = Inr resp'"
    and "Unmarshal_Weather (Body resp') \<lparr>Current = \<lparr>temp_c = 0\<rparr>\<rparr> = Inr w"
  shows "handler a e (c # cep) =
     ([SpanStart ''orchestration-handler'',
       LogPrintf ''Received request for CEP: %s'' [Str cep],
       SpanStart ''call-viacep-api'', ClientDo (viaCepURL cep), SpanEnd ''call-viacep-api'',
       SpanStart ''call-weather-api'',
       ClientDo (weatherURL (WeatherAPIKey conf) (QueryEscape (Localidade v))),
       SpanEnd ''call-weather-api'',
       LogPrintf ''Response for CEP %s: %+v''
         [Str cep, Val \<lparr>City = Localidade v, TempC = temp_c (Current w),
            TempF = temp_c (Current w) * 1.8 + 32, TempK = temp_c (Current w) + 273\<rparr>],
       BodyClose (weatherURL (WeatherAPIKey conf) (QueryEscape (Localidade v))),
       BodyClose (viaCepURL cep),
       SpanEnd ''orchestration-handler''],
      Responded \<lparr>Code = 200, ContentType = ''application/json'',
        Output = JSON \<lparr>City = Localidade v, TempC = temp_c (Current w),
            TempF = temp_c (Current w) * 1.8 + 32, TempK = temp_c (Current w) + 273\<rparr>\<rparr>)"
  using assms by (simp add: handler_defs)

text \<open>Every request falls under exactly one of the eleven paths above.\<close>

lemma handler_cases [case_names empty_path invalid geocode_nil_request geocode_transport
    geocode_decode not_found nil_cfg weather_nil_request weather_transport weather_decode success]:
  fixes a :: app and e :: env and path :: string
  obtains
    "path = []"
  | c cep where "path = c # cep" "\<not> MatchString cep"
  | c cep where "path = c # cep" "MatchString cep" "\<not> NewRequest e (viaCepURL cep)"
  | c cep err where "path = c # cep" "MatchString cep" "NewRequest e (viaCepURL cep)"
      "Do e (viaCepURL cep) = Inl err"
  | c cep resp err where "path = c # cep" "MatchString cep" "NewRequest e (viaCepURL cep)"
      "Do e (viaCepURL cep) = Inr resp"
      "Unmarshal_ViaCEP (Body resp) \<lparr>Localidade = [], Erro = False\<rparr> = Inl err"
  | c cep resp v where "path = c # cep" "MatchString cep" "NewRequest e (viaCepURL cep)"
      "Do e (viaCepURL cep) = Inr resp"
      "Unmarshal_ViaCEP (Body resp) \<lparr>Localidade = [], Erro = False\<rparr> = Inr v"
      "Erro v \<or> Localidade v = []"
  | c cep resp v where "path = c # cep" "MatchString cep" "NewRequest e (viaCepURL cep)"
      "Do e (viaCepURL cep) = Inr resp"
      "Unmarshal_ViaCEP (Body resp) \<lparr>Localidade = [], Erro = False\<rparr> = Inr v"
      "\<not> Erro v" "Localidade v \<noteq> []" "cfg a = None"
  | c cep resp v conf where "path = c # cep" "MatchString cep" "NewRequest e (viaCepURL cep)"
      "Do e (viaCepURL cep) = Inr resp"
      "Unmarshal_ViaCEP (Body resp) \<lparr>Localidade = [], Erro = False\<rparr> = Inr v"
      "\<not> Erro v" "Localidade v \<noteq> []" "cfg a = Some conf"
      "\<not> NewRequest e (weatherURL (WeatherAPIKey conf) (QueryEscape (Localidade v)))"
  | c cep resp v conf err where "path = c # cep" "MatchString cep" "NewRequest e (viaCepURL cep)"
      "Do e (viaCepURL cep) = Inr resp"
      "Unmarshal_ViaCEP (Body resp) \<lparr>Localidade = [], Erro = False\<rparr> = Inr v"
      "\<not> Erro v" "Localidade v \<noteq> []" "cfg a = Some conf"
      "NewRequest e (weatherURL (WeatherAPIKey conf) (QueryEscape (Localidade v)))"
      "Do e (weatherURL (WeatherAPIKey conf) (QueryEscape (Localidade v))) = Inl err"
  | c cep resp v conf resp' err where "path = c # cep" "MatchString cep" "NewRequest e (viaCepURL cep)"
      "Do e (viaCepURL cep) = Inr resp"
      "Unmarshal_ViaCEP (Body resp) \<lparr>Localidade = [], Erro = False\<rparr> = Inr v"
      "\<not> Erro v" "Localidade v \<noteq> []" "cfg a = Some conf"
      "NewRequest e (weatherURL (WeatherAPIKey conf) (QueryEscape (Localidade v)))"
      "Do e (weatherURL (WeatherAPIKey conf) (QueryEscape (Localidade v))) = Inr resp'"
      "Unmarshal_Weather (Body resp') \<lparr>Current = \<lparr>temp_c = 0\<rparr>\<rparr> = Inl err"
  | c cep resp v conf resp' w where "path = c # cep" "MatchString cep" "NewRequest e (viaCepURL cep)"
      "Do e (viaCepURL cep) = Inr resp"
      "Unmarshal_ViaCEP (Body resp) \<lparr>Localidade = [], Erro = False\<rparr> = Inr v"
      "\<not> Erro v" "Localidade v \<noteq> []" "cfg a = Some conf"
      "NewRequest e (weatherURL (WeatherAPIKey conf) (QueryEscape (Localidade v)))"
      "Do e (weatherURL (WeatherAPIKey conf) (QueryEscape (Localidade v))) = Inr resp'"
      "Unmarshal_Weather (Body resp') \<lparr>Current = \<lparr>temp_c = 0\<rparr>\<rparr> = Inr w"
proof (cases path)
  case Nil
  then show ?thesis using that(1) by simp
next
  case (Cons c cep)
  note path = this
  show ?thesis
  proof (cases "MatchString cep")
    case False
    with path show ?thesis using that(2) by simp
  next
    case m: True
    show ?thesis
    proof (cases "NewRequest e (viaCepURL cep)")
      case False
      with path m show ?thesis using that(3) by simp
    next
      case n: True
      show ?thesis
      proof (cases "Do e (viaCepURL cep)")
        case (Inl err)
        with path m n show ?thesis using that(4) by simp
      next
        case d: (Inr resp)
        show ?thesis
        proof (cases "Unmarshal_ViaCEP (Body resp) \<lparr>Localidade = [], Erro = False\<rparr>")
          case (Inl err)
          with path m n d show ?thesis using that(5) by simp
        next
          case u: (Inr v)
          show ?thesis
          proof (cases "Erro v \<or> Localidade v = []")
            case True
            with path m n d u show ?thesis using that(6) by simp
          next
            case False
            then have f: "\<not> Erro v" "Localidade v \<noteq> []" by simp_all
            show ?thesis
            proof (cases "cfg a")
              case None
              with path m n d u f show ?thesis using that(7) by simp
            next
              case k: (Some conf)
              let ?url = "weatherURL (WeatherAPIKey conf) (QueryEscape (Localidade v))"
              show ?thesis
              proof (cases "NewRequest e ?url")
                case False
                with path m n d u f k show ?thesis using that(8) by simp
              next
                case n': True
                show ?thesis
                proof (cases "Do e ?url")
                  case (Inl err)
                  with path m n d u f k n' show ?thesis using that(9) by simp
                next
                  case d': (Inr resp')
                  show ?thesis
                  proof (cases "Unmarshal_Weather (Body resp') \<lparr>Current = \<lparr>temp_c = 0\<rparr>\<rparr>")
                    case (Inl err)
                    with path m n d u f k n' d' show ?thesis using that(10) by simp
                  next
                    case (Inr w)
                    with path m n d u f k n' d' show ?thesis using that(11) by simp
                  qed
                qed
              qed
            qed
          qed
        qed
      qed
    qed
  qed
qed

subsection \<open>The fixtures\<close>

lemma test_request: "length ''01001000'' = 8" "\<forall>d \<in> set ''01001000''. d \<in> set ''0123456789''"
  by simp_all

lemma mock_NewRequest: "NewRequest (mock geo wea) u"
  by (simp add: mock_def)

lemma mock_Do_viaCep: "Do (mock geo wea) (viaCepURL cep) = geo"
  by (simp add: mock_def viaCepURL_def)

lemma mock_Do_weather: "Do (mock geo wea) (weatherURL key city) = wea"
  by (simp add: mock_def weatherURL_def)

lemma Unmarshal_localidade_body:
  "Unmarshal_ViaCEP (localidade_body city) v = Inr (v\<lparr>Localidade := city\<rparr>)"
  by (simp add: Unmarshal_ViaCEP_def localidade_body_def equalFold_def unmarshal_string_def)




subsection \<open>Failure responses\<close>

lemma failure_is_one_plain_line:
  assumes "snd (handler a e path) = Responded r" "Code r \<noteq> 200"
  shows "ContentType r = ''text/plain; charset=utf-8''
         \<and> (\<exists>msg. Output r = Plain (msg @ [CHR 0x0A]) \<and> CHR 0x0A \<notin> set msg)"
proof (cases rule: handler_cases [where path = path and e = e and a = a])
  case empty_path
  with assms show ?thesis by (simp add: run_empty_path)
next
  case (invalid c cep)
  with assms show ?thesis by (auto simp: run_invalid http_Error_def)
next
  case (geocode_nil_request c cep)
  with assms show ?thesis by (simp add: run_geocode_nil_request)
next
  case (geocode_transport c cep err)
  with assms show ?thesis by (auto simp: run_geocode_transport http_Error_def)
next
  case (geocode_decode c cep resp err)
  with assms show ?thesis by (auto simp: run_geocode_decode http_Error_def)
next
  case (not_found c cep resp v)
  from run_not_found [OF not_found(2-6), of a c] not_found(1) assms
  show ?thesis by (auto simp: http_Error_def)
next
  case (nil_cfg c cep resp v)
  from run_nil_cfg [OF nil_cfg(2-8), of c] nil_cfg(1) assms
  show ?thesis by simp
next
  case (weather_nil_request c cep resp v conf)
  from run_weather_nil_request [OF weather_nil_request(2-9), of c] weather_nil_request(1) assms
  show ?thesis by simp
next
  case (weather_transport c cep resp v conf err)
  from run_weather_transport [OF weather_transport(2-10), of c] weather_transport(1) assms
  show ?thesis by (auto simp: http_Error_def)
next
  case (weather_decode c cep resp v conf resp' err)
  from run_weather_decode [OF weather_decode(2-11), of c] weather_decode(1) assms
  show ?thesis by (auto simp: http_Error_def)
next
  case (success c cep resp v conf resp' w)
  from run_success [OF success(2-11), of c] success(1) assms
  show ?thesis by auto
qed

subsection \<open>Query escaping\<close>





subsection \<open>The status code of a provider is not read\<close>

lemma on_weather_response_Body: "Body r1 = Body r2 \<Longrightarrow> on_weather_response cep v r1 = on_weather_response cep v r2"
  by (simp add: on_weather_response_def)

lemma Do_same_Body:
  assumes "map_sum id Body (Do e1 u) = map_sum id Body (Do e2 u)"
  obtains err where "Do e1 u = Inl err" "Do e2 u = Inl err"
  | r1 r2 where "Do e1 u = Inr r1" "Do e2 u = Inr r2" "Body r1 = Body r2"
  using assms by (cases "Do e1 u"; cases "Do e2 u") simp_all

lemma on_viacep_response_Body:
  assumes N: "\<forall>u. NewRequest e1 u = NewRequest e2 u"
    and D: "\<forall>u. map_sum id Body (Do e1 u) = map_sum id Body (Do e2 u)"
    and B: "Body r1 = Body r2"
  shows "on_viacep_response a e1 cep r1 = on_viacep_response a e2 cep r2"
proof (cases "Unmarshal_ViaCEP (Body r2) \<lparr>Localidade = [], Erro = False\<rparr>")
  case (Inl err)
  with B show ?thesis by (simp add: on_viacep_response_def Let_def)
next
  case u: (Inr v)
  show ?thesis
  proof (cases "cfg a")
    case None
    with B u show ?thesis by (simp add: on_viacep_response_def Let_def)
  next
    case k: (Some conf)
    let ?url = "weatherURL (WeatherAPIKey conf) (QueryEscape (Localidade v))"
    from N have n: "NewRequest e1 ?url = NewRequest e2 ?url" by blast
    from D have "map_sum id Body (Do e1 ?url) = map_sum id Body (Do e2 ?url)" by blast
    then show ?thesis
    proof (cases rule: Do_same_Body)
      case (1 err)
      with B u k n show ?thesis by (simp add: on_viacep_response_def Let_def)
    next
      case (2 r1' r2')
      from 2(3) have "on_weather_response cep v r1' = on_weather_response cep v r2'" by (rule on_weather_response_Body)
      with B u k n 2(1,2) show ?thesis by (simp add: on_viacep_response_def Let_def)
    qed
  qed
qed

lemma handler_body_Body:
  assumes N: "\<forall>u. NewRequest e1 u = NewRequest e2 u"
    and D: "\<forall>u. map_sum id Body (Do e1 u) = map_sum id Body (Do e2 u)"
  shows "handler_body a e1 path = handler_body a e2 path"
proof (cases path)
  case Nil
  then show ?thesis by (simp add: handler_body_def Let_def)
next
  case p: (Cons c cep)
  from N have n: "NewRequest e1 (viaCepURL cep) = NewRequest e2 (viaCepURL cep)" by blast
  from D have "map_sum id Body (Do e1 (viaCepURL cep)) = map_sum id Body (Do e2 (viaCepURL cep))" by blast
  then show ?thesis
  proof (cases rule: Do_same_Body)
    case (1 err)
    with p n show ?thesis by (simp add: handler_body_def Let_def)
  next
    case (2 r1 r2)
    from 2(3) have "on_viacep_response a e1 cep r1 = on_viacep_response a e2 cep r2" by (rule on_viacep_response_Body [OF N D])
    with p n 2(1,2) show ?thesis by (simp add: handler_body_def Let_def)
  qed
qed

subsection \<open>Decoding the weather body\<close>





section \<open>The claims\<close>




text \<open>
  C2. For every input string that is not exactly 8 ASCII digits, the handler answers with
  status 422 and the one line \<^verbatim>\<open>invalid zipcode\<close>, and makes no outbound call:
  neither provider is contacted. The input string is what follows the first byte of the
  request path.
\<close>

theorem C2_invalid_zipcode_short_circuits:
  assumes "\<not> (length cep = 8 \<and> (\<forall>c \<in> set cep. c \<in> set ''0123456789''))"
  shows "snd (handler a e (c # cep)) =
           Responded \<lparr>Code = 422, ContentType = ''text/plain; charset=utf-8'',
                       Output = Plain (''invalid zipcode'' @ [CHR 0x0A])\<rparr>
         \<and> calls (fst (handler a e (c # cep))) = []"
proof -
  from assms have "\<not> MatchString cep"
    unfolding MatchString_digits .
  then show ?thesis
    by (simp add: run_invalid http_Error_def)
qed

text \<open>
  Two inputs that are not 8 digits: a short one and one with a sign.
\<close>

theorem C2_invalid_zipcode_witness:
  "snd (handler test_app (mock (ok NotJSON) (ok NotJSON)) ''/12345'') =
           Responded \<lparr>Code = 422, ContentType = ''text/plain; charset=utf-8'',
                       Output = Plain (''invalid zipcode'' @ [CHR 0x0A])\<rparr>
   \<and> calls (fst (handler test_app (mock (ok NotJSON) (ok NotJSON)) ''/12345'')) = []
   \<and> snd (handler test_app (mock (ok NotJSON) (ok NotJSON)) ''/+1001000'') =
           Responded \<lparr>Code = 422, ContentType = ''text/plain; charset=utf-8'',
                       Output = Plain (''invalid zipcode'' @ [CHR 0x0A])\<rparr>
   \<and> calls (fst (handler test_app (mock (ok NotJSON) (ok NotJSON)) ''/+1001000'')) = []"
  using C2_invalid_zipcode_short_circuits [of "''12345''" test_app "mock (ok NotJSON) (ok NotJSON)" "CHR ''/''"]
    C2_invalid_zipcode_short_circuits [of "''+1001000''" test_app "mock (ok NotJSON) (ok NotJSON)" "CHR ''/''"]
  by simp

text \<open>
  C3. For every validated request whose ViaCEP call returns a body that decodes, with the
  flag \<^verbatim>\<open>erro\<close> set or with an empty \<^verbatim>\<open>localidade\<close>, the handler answers with
  status 404 and the line \<^verbatim>\<open>can not find zipcode\<close>; the only outbound call is the
  one to ViaCEP, and the weather span is never started.
\<close>

theorem C3_not_found_skips_weather:
  assumes "length cep = 8" "\<forall>d \<in> set cep. d \<in> set ''0123456789''"
    and "NewRequest e (viaCepURL cep)"
    and "Do e (viaCepURL cep) = Inr resp"
    and "Unmarshal_ViaCEP (Body resp) \<lparr>Localidade = [], Erro = False\<rparr> = Inr v"
    and "Erro v \<or> Localidade v = []"
  shows "snd (handler a e (c # cep)) =
           Responded \<lparr>Code = 404, ContentType = ''text/plain; charset=utf-8'',
                       Output = Plain (''can not find zipcode'' @ [CHR 0x0A])\<rparr>
         \<and> calls (fst (handler a e (c # cep))) = [viaCepURL cep]
         \<and> SpanStart ''call-weather-api'' \<notin> set (fst (handler a e (c # cep)))"
proof -
  from assms(1,2) have "MatchString cep"
    unfolding MatchString_digits by simp
  from run_not_found [OF this assms(3-6)] show ?thesis
    by (simp add: http_Error_def)
qed

text \<open>
  The two bodies \<^verbatim>\<open>{"erro": true}\<close> and \<^verbatim>\<open>{"localidade": ""}\<close>.
\<close>

theorem C3_not_found_witness:
  "snd (handler test_app (mock (ok (JSONText (JObject [(''erro'', JBool True)]))) (ok (temp_c_body 25))) ''/01001003'') =
           Responded \<lparr>Code = 404, ContentType = ''text/plain; charset=utf-8'',
                       Output = Plain (''can not find zipcode'' @ [CHR 0x0A])\<rparr>
   \<and> calls (fst (handler test_app (mock (ok (JSONText (JObject [(''erro'', JBool True)]))) (ok (temp_c_body 25))) ''/01001003''))
       = [''https://viacep.com.br/ws/01001003/json/'']
   \<and> snd (handler test_app (mock (ok (localidade_body [])) (ok (temp_c_body 25))) ''/01001003'') =
           Responded \<lparr>Code = 404, ContentType = ''text/plain; charset=utf-8'',
                       Output = Plain (''can not find zipcode'' @ [CHR 0x0A])\<rparr>
   \<and> calls (fst (handler test_app (mock (ok (localidade_body [])) (ok (temp_c_body 25))) ''/01001003''))
       = [''https://viacep.com.br/ws/01001003/json/'']"
proof -
  let ?erro = "mock (ok (JSONText (JObject [(''erro'', JBool True)]))) (ok (temp_c_body 25))"
  let ?empty = "mock (ok (localidade_body [])) (ok (temp_c_body 25))"
  have len: "length ''01001003'' = 8" and dig: "\<forall>d \<in> set ''01001003''. d \<in> set ''0123456789''"
    by simp_all
  have new1: "NewRequest ?erro (viaCepURL ''01001003'')" and new2: "NewRequest ?empty (viaCepURL ''01001003'')"
    by (simp_all add: mock_def)
  have do1: "Do ?erro (viaCepURL ''01001003'') = Inr \<lparr>StatusCode = 200, Body = JSONText (JObject [(''erro'', JBool True)])\<rparr>"
    by (simp add: mock_def viaCepURL_def ok_def)
  have do2: "Do ?empty (viaCepURL ''01001003'') = Inr \<lparr>StatusCode = 200, Body = localidade_body []\<rparr>"
    by (simp add: mock_def viaCepURL_def ok_def)
  have dec1: "Unmarshal_ViaCEP (Body \<lparr>StatusCode = 200, Body = JSONText (JObject [(''erro'', JBool True)])\<rparr>)
      \<lparr>Localidade = [], Erro = False\<rparr> = Inr \<lparr>Localidade = [], Erro = True\<rparr>"
    by code_simp
  have dec2: "Unmarshal_ViaCEP (Body \<lparr>StatusCode = 200, Body = localidade_body []\<rparr>)
      \<lparr>Localidade = [], Erro = False\<rparr> = Inr \<lparr>Localidade = [], Erro = False\<rparr>"
    by code_simp
  have nf1: "Erro \<lparr>Localidade = [], Erro = True\<rparr> \<or> Localidade \<lparr>Localidade = [], Erro = True\<rparr> = []"
    and nf2: "Erro \<lparr>Localidade = [], Erro = False\<rparr> \<or> Localidade \<lparr>Localidade = [], Erro = False\<rparr> = []"
    by simp_all
  from C3_not_found_skips_weather [OF len dig new1 do1 dec1 nf1, of test_app "CHR ''/''"]
    C3_not_found_skips_weather [OF len dig new2 do2 dec2 nf2, of test_app "CHR ''/''"]
  show ?thesis by (simp add: viaCepURL_def)
qed

text \<open>
  C4 (amended). For every transport error or body that does not decode, at either stage,
  the handler answers with status 500 and exactly one plain-text line. The line is not
  generic: it names the failing provider and the kind of failure, as the log line does.
  Every response other than the 200 one is one plain-text line.
\<close>

theorem C4_failure_line_names_the_stage:
  fixes a :: app and e :: env and c :: char and cep :: string
  defines "H \<equiv> handler a e (c # cep)"
  defines "line msg \<equiv> Responded \<lparr>Code = 500, ContentType = ''text/plain; charset=utf-8'',
                                     Output = Plain (msg @ [CHR 0x0A])\<rparr>"
  assumes "length cep = 8" "\<forall>d \<in> set cep. d \<in> set ''0123456789''" "NewRequest e (viaCepURL cep)"
  shows "(\<forall>err. Do e (viaCepURL cep) = Inl err \<longrightarrow>
            snd H = line ''error fetching from ViaCEP''
            \<and> LogPrintf ''Error fetching from ViaCEP: %v'' [Err err] \<in> set (fst H))
       \<and> (\<forall>resp err. Do e (viaCepURL cep) = Inr resp
              \<and> Unmarshal_ViaCEP (Body resp) \<lparr>Localidade = [], Erro = False\<rparr> = Inl err \<longrightarrow>
            snd H = line ''error unmarshalling ViaCEP response''
            \<and> LogPrintf ''Error unmarshalling ViaCEP response: %v'' [Err err] \<in> set (fst H))
       \<and> (\<forall>resp v conf err. Do e (viaCepURL cep) = Inr resp
              \<and> Unmarshal_ViaCEP (Body resp) \<lparr>Localidade = [], Erro = False\<rparr> = Inr v
              \<and> \<not> Erro v \<and> Localidade v \<noteq> [] \<and> cfg a = Some conf
              \<and> NewRequest e (weatherURL (WeatherAPIKey conf) (QueryEscape (Localidade v)))
              \<and> Do e (weatherURL (WeatherAPIKey conf) (QueryEscape (Localidade v))) = Inl err \<longrightarrow>
            snd H = line ''error fetching from WeatherAPI''
            \<and> LogPrintf ''Error fetching from WeatherAPI: %v'' [Err err] \<in> set (fst H))
       \<and> (\<forall>resp v conf resp' err. Do e (viaCepURL cep) = Inr resp
              \<and> Unmarshal_ViaCEP (Body resp) \<lparr>Localidade = [], Erro = False\<rparr> = Inr v
              \<and> \<not> Erro v \<and> Localidade v \<noteq> [] \<and> cfg a = Some conf
              \<and> NewRequest e (weatherURL (WeatherAPIKey conf) (QueryEscape (Localidade v)))
              \<and> Do e (weatherURL (WeatherAPIKey conf) (QueryEscape (Localidade v))) = Inr resp'
              \<and> Unmarshal_Weather (Body resp') \<lparr>Current = \<lparr>temp_c = 0\<rparr>\<rparr> = Inl err \<longrightarrow>
            snd H = line ''error unmarshalling WeatherAPI response''
            \<and> LogPrintf ''Error unmarshalling WeatherAPI response: %v'' [Err err] \<in> set (fst H))
       \<and> (\<forall>path r. snd (handler a e path) = Responded r \<and> Code r \<noteq> 200 \<longrightarrow>
            ContentType r = ''text/plain; charset=utf-8''
            \<and> (\<exists>msg. Output r = Plain (msg @ [CHR 0x0A]) \<and> CHR 0x0A \<notin> set msg))"
proof -
  from assms(3,4) have m: "MatchString cep"
    unfolding MatchString_digits by simp
  note n = assms(5)
  have 1: "\<forall>err. Do e (viaCepURL cep) = Inl err \<longrightarrow>
            snd H = line ''error fetching from ViaCEP''
            \<and> LogPrintf ''Error fetching from ViaCEP: %v'' [Err err] \<in> set (fst H)"
    using m n by (simp add: H_def line_def run_geocode_transport http_Error_def)
  have 2: "\<forall>resp err. Do e (viaCepURL cep) = Inr resp
              \<and> Unmarshal_ViaCEP (Body resp) \<lparr>Localidade = [], Erro = False\<rparr> = Inl err \<longrightarrow>
            snd H = line ''error unmarshalling ViaCEP response''
            \<and> LogPrintf ''Error unmarshalling ViaCEP response: %v'' [Err err] \<in> set (fst H)"
    using m n by (simp add: H_def line_def run_geocode_decode http_Error_def)
  have 3: "\<forall>resp v conf err. Do e (viaCepURL cep) = Inr resp
              \<and> Unmarshal_ViaCEP (Body resp) \<lparr>Localidade = [], Erro = False\<rparr> = Inr v
              \<and> \<not> Erro v \<and> Localidade v \<noteq> [] \<and> cfg a = Some conf
              \<and> NewRequest e (weatherURL (WeatherAPIKey conf) (QueryEscape (Localidade v)))
              \<and> Do e (weatherURL (WeatherAPIKey conf) (QueryEscape (Localidade v))) = Inl err \<longrightarrow>
            snd H = line ''error fetching from WeatherAPI''
            \<and> LogPrintf ''Error fetching from WeatherAPI: %v'' [Err err] \<in> set (fst H)"
    using m n by (simp add: H_def line_def run_weather_transport http_Error_def)
  have 4: "\<forall>resp v conf resp' err. Do e (viaCepURL cep) = Inr resp
              \<and> Unmarshal_ViaCEP (Body resp) \<lparr>Localidade = [], Erro = False\<rparr> = Inr v
              \<and> \<not> Erro v \<and> Localidade v \<noteq> [] \<and> cfg a = Some conf
              \<and> NewRequest e (weatherURL (WeatherAPIKey conf) (QueryEscape (Localidade v)))
              \<and> Do e (weatherURL (WeatherAPIKey conf) (QueryEscape (Localidade v))) = Inr resp'
              \<and> Unmarshal_Weather (Body resp') \<lparr>Current = \<lparr>temp_c = 0\<rparr>\<rparr> = Inl err \<longrightarrow>
            snd H = line ''error unmarshalling WeatherAPI response''
            \<and> LogPrintf ''Error unmarshalling WeatherAPI response: %v'' [Err err] \<in> set (fst H)"
    using m n by (simp add: H_def line_def run_weather_decode http_Error_def)
  have 5: "\<forall>path r. snd (handler a e path) = Responded r \<and> Code r \<noteq> 200 \<longrightarrow>
            ContentType r = ''text/plain; charset=utf-8''
            \<and> (\<exists>msg. Output r = Plain (msg @ [CHR 0x0A]) \<and> CHR 0x0A \<notin> set msg)"
    using failure_is_one_plain_line by blast
  from 1 2 3 4 5 show ?thesis by blast
qed

text \<open>
  The four failures, each on the fixtures.
\<close>

theorem C4_failure_lines_witness:
  "snd (handler test_app (mock (Inl (UrlError ''connection refused'')) (ok (temp_c_body 25))) ''/01001000'')
     = Responded \<lparr>Code = 500, ContentType = ''text/plain; charset=utf-8'',
                   Output = Plain (''error fetching from ViaCEP'' @ [CHR 0x0A])\<rparr>
   \<and> snd (handler test_app (mock (ok NotJSON) (ok (temp_c_body 25))) ''/01001000'')
     = Responded \<lparr>Code = 500, ContentType = ''text/plain; charset=utf-8'',
                   Output = Plain (''error unmarshalling ViaCEP response'' @ [CHR 0x0A])\<rparr>
   \<and> snd (handler test_app (mock (ok (localidade_body saoPaulo)) (Inl (UrlError ''connection refused''))) ''/01001000'')
     = Responded \<lparr>Code = 500, ContentType = ''text/plain; charset=utf-8'',
                   Output = Plain (''error fetching from WeatherAPI'' @ [CHR 0x0A])\<rparr>
   \<and> snd (handler test_app (mock (ok (localidade_body saoPaulo)) (ok NotJSON)) ''/01001000'')
     = Responded \<lparr>Code = 500, ContentType = ''text/plain; charset=utf-8'',
                   Output = Plain (''error unmarshalling WeatherAPI response'' @ [CHR 0x0A])\<rparr>"
proof -
  let ?v = "\<lparr>Localidade = saoPaulo, Erro = False\<rparr>"
  let ?conf = "\<lparr>WeatherAPIKey = ''test-key'', ServerPort = []\<rparr>"
  have geo: "Do (mock (ok (localidade_body saoPaulo)) wea) (viaCepURL ''01001000'')
               = Inr \<lparr>StatusCode = 200, Body = localidade_body saoPaulo\<rparr>" for wea
    by (simp add: mock_Do_viaCep ok_def)
  have dec: "Unmarshal_ViaCEP (Body \<lparr>StatusCode = 200, Body = localidade_body saoPaulo\<rparr>)
             \<lparr>Localidade = [], Erro = False\<rparr> = Inr ?v"
    by (simp add: Unmarshal_localidade_body)
  have v: "\<not> Erro ?v" "Localidade ?v \<noteq> []"
    by (simp_all add: saoPaulo_def)
  have k: "cfg test_app = Some ?conf"
    by (simp add: test_app_def)
  have 1: "Do (mock (Inl (UrlError ''connection refused'')) (ok (temp_c_body 25))) (viaCepURL ''01001000'')
            = Inl (UrlError ''connection refused'')"
    by (simp add: mock_Do_viaCep)
  have 2: "Do (mock (ok NotJSON) (ok (temp_c_body 25))) (viaCepURL ''01001000'')
            = Inr \<lparr>StatusCode = 200, Body = NotJSON\<rparr>"
     "Unmarshal_ViaCEP (Body \<lparr>StatusCode = 200, Body = NotJSON\<rparr>) \<lparr>Localidade = [], Erro = False\<rparr>
            = Inl SyntaxError"
    by (simp_all add: mock_Do_viaCep ok_def Unmarshal_ViaCEP_def)
  have 3: "Do (mock (ok (localidade_body saoPaulo)) (Inl (UrlError ''connection refused'')))
              (weatherURL (WeatherAPIKey ?conf) (QueryEscape (Localidade ?v)))
            = Inl (UrlError ''connection refused'')"
    by (simp add: mock_Do_weather)
  have 4: "Do (mock (ok (localidade_body saoPaulo)) (ok NotJSON))
              (weatherURL (WeatherAPIKey ?conf) (QueryEscape (Localidade ?v)))
            = Inr \<lparr>StatusCode = 200, Body = NotJSON\<rparr>"
     "Unmarshal_Weather (Body \<lparr>StatusCode = 200, Body = NotJSON\<rparr>) \<lparr>Current = \<lparr>temp_c = 0\<rparr>\<rparr>
            = Inl SyntaxError"
    by (simp_all add: mock_Do_weather ok_def Unmarshal_Weather_def)
  from C4_failure_line_names_the_stage [OF test_request mock_NewRequest,
      where a = test_app and c = "CHR ''/''" and geo1 = "Inl (UrlError ''connection refused'')"
        and wea1 = "ok (temp_c_body 25)"] 1
  have a: "snd (handler test_app (mock (Inl (UrlError ''connection refused'')) (ok (temp_c_body 25))) ''/01001000'')
     = Responded \<lparr>Code = 500, ContentType = ''text/plain; charset=utf-8'',
                   Output = Plain (''error fetching from ViaCEP'' @ [CHR 0x0A])\<rparr>"
    by simp
  from C4_failure_line_names_the_stage [OF test_request mock_NewRequest,
      where a = test_app and c = "CHR ''/''" and geo1 = "ok NotJSON"
        and wea1 = "ok (temp_c_body 25)"] 2
  have b: "snd (handler test_app (mock (ok NotJSON) (ok (temp_c_body 25))) ''/01001000'')
     = Responded \<lparr>Code = 500, ContentType = ''text/plain; charset=utf-8'',
                   Output = Plain (''error unmarshalling ViaCEP response'' @ [CHR 0x0A])\<rparr>"
    by simp
  from C4_failure_line_names_the_stage [OF test_request mock_NewRequest,
      where a = test_app and c = "CHR ''/''" and geo1 = "ok (localidade_body saoPaulo)"
        and wea1 = "Inl (UrlError ''connection refused'')"] geo dec v k mock_NewRequest 3
  have c: "snd (handler test_app (mock (ok (localidade_body saoPaulo)) (Inl (UrlError ''connection refused''))) ''/01001000'')
     = Responded \<lparr>Code = 500, ContentType = ''text/plain; charset=utf-8'',
                   Output = Plain (''error fetching from WeatherAPI'' @ [CHR 0x0A])\<rparr>"
    by simp
  from C4_failure_line_names_the_stage [OF test_request mock_NewRequest,
      where a = test_app and c = "CHR ''/''" and geo1 = "ok (localidade_body saoPaulo)"
        and wea1 = "ok NotJSON"] geo dec v k mock_NewRequest 4
  have d: "snd (handler test_app (mock (ok (localidade_body saoPaulo)) (ok NotJSON)) ''/01001000'')
     = Responded \<lparr>Code = 500, ContentType = ''text/plain; charset=utf-8'',
                   Output = Plain (''error unmarshalling WeatherAPI response'' @ [CHR 0x0A])\<rparr>"
    by simp
  from a b c d show ?thesis by blast
qed

text \<open>
  C4 as stated fails: the same transport error gives a different body at the ViaCEP stage
  and at the WeatherAPI stage, so the body tells the stage.
\<close>

theorem C4_stage_in_body_counterexample:
  "snd (handler test_app (mock (Inl (UrlError ''connection refused'')) (ok (temp_c_body 25))) ''/01001000'')
     = Responded \<lparr>Code = 500, ContentType = ''text/plain; charset=utf-8'',
                   Output = Plain (''error fetching from ViaCEP'' @ [CHR 0x0A])\<rparr>
   \<and> snd (handler test_app (mock (ok (localidade_body saoPaulo)) (Inl (UrlError ''connection refused''))) ''/01001000'')
     = Responded \<lparr>Code = 500, ContentType = ''text/plain; charset=utf-8'',
                   Output = Plain (''error fetching from WeatherAPI'' @ [CHR 0x0A])\<rparr>
   \<and> snd (handler test_app (mock (Inl (UrlError ''connection refused'')) (ok (temp_c_body 25))) ''/01001000'')
     \<noteq> snd (handler test_app (mock (ok (localidade_body saoPaulo)) (Inl (UrlError ''connection refused''))) ''/01001000'')"
  by code_simp

text \<open>
  C5. In every request the outbound calls are none, or the ViaCEP call alone, or the
  ViaCEP call followed by the WeatherAPI call, the latter only when the ViaCEP answer
  decoded to a locality: each provider is called at most once, ViaCEP first. A transport
  failure of the ViaCEP call gives status 500 with no call to WeatherAPI. The response
  for a transport failure of the WeatherAPI call occurs only in runs where the ViaCEP
  call had succeeded.
\<close>

theorem C5_calls_sequential_at_most_once:
  fixes a :: app and e :: env and path :: string
  defines "tr \<equiv> fst (handler a e path)" and "out \<equiv> snd (handler a e path)"
  shows "(calls tr = []
          \<or> calls tr = [viaCepURL (tl path)]
          \<or> (\<exists>resp v conf.
                Do e (viaCepURL (tl path)) = Inr resp
                \<and> Unmarshal_ViaCEP (Body resp) \<lparr>Localidade = [], Erro = False\<rparr> = Inr v
                \<and> \<not> Erro v \<and> Localidade v \<noteq> [] \<and> cfg a = Some conf
                \<and> calls tr = [viaCepURL (tl path),
                               weatherURL (WeatherAPIKey conf) (QueryEscape (Localidade v))]))
       \<and> (\<forall>err. path \<noteq> [] \<and> length (tl path) = 8
                 \<and> (\<forall>d \<in> set (tl path). d \<in> set ''0123456789'')
                 \<and> NewRequest e (viaCepURL (tl path))
                 \<and> Do e (viaCepURL (tl path)) = Inl err
             \<longrightarrow> out = Responded \<lparr>Code = 500, ContentType = ''text/plain; charset=utf-8'',
                                   Output = Plain (''error fetching from ViaCEP'' @ [CHR 0x0A])\<rparr>
                 \<and> calls tr = [viaCepURL (tl path)])
       \<and> (out = Responded \<lparr>Code = 500, ContentType = ''text/plain; charset=utf-8'',
                             Output = Plain (''error fetching from WeatherAPI'' @ [CHR 0x0A])\<rparr>
             \<longrightarrow> (\<exists>resp v conf err.
                    Do e (viaCepURL (tl path)) = Inr resp
                    \<and> Unmarshal_ViaCEP (Body resp) \<lparr>Localidade = [], Erro = False\<rparr> = Inr v
                    \<and> \<not> Erro v \<and> Localidade v \<noteq> [] \<and> cfg a = Some conf
                    \<and> Do e (weatherURL (WeatherAPIKey conf) (QueryEscape (Localidade v))) = Inl err
                    \<and> calls tr = [viaCepURL (tl path),
                                   weatherURL (WeatherAPIKey conf) (QueryEscape (Localidade v))]))"
proof (cases rule: handler_cases [where path = path and e = e and a = a])
  case empty_path
  then show ?thesis by (simp add: tr_def out_def run_empty_path)
next
  case (invalid c cep)
  then have "handler a e path = handler a e (c # cep)" "\<not> (length cep = 8 \<and> (\<forall>d \<in> set cep. d \<in> set ''0123456789''))"
    by (simp_all only: MatchString_digits not_False_eq_True)
  with invalid show ?thesis by (simp add: tr_def out_def run_invalid http_Error_def)
next
  case (geocode_nil_request c cep)
  then show ?thesis by (simp add: tr_def out_def run_geocode_nil_request)
next
  case (geocode_transport c cep err)
  then show ?thesis by (simp add: tr_def out_def run_geocode_transport http_Error_def)
next
  case (geocode_decode c cep resp err)
  then show ?thesis by (simp add: tr_def out_def run_geocode_decode http_Error_def)
next
  case (not_found c cep resp v)
  from run_not_found [OF not_found(2-6), of a c] not_found(1,4)
  show ?thesis by (simp add: tr_def out_def http_Error_def)
next
  case (nil_cfg c cep resp v)
  from run_nil_cfg [OF nil_cfg(2-8), of c] nil_cfg(1,4)
  show ?thesis by (simp add: tr_def out_def)
next
  case (weather_nil_request c cep resp v conf)
  from run_weather_nil_request [OF weather_nil_request(2-9), of c] weather_nil_request(1,4)
  show ?thesis by (simp add: tr_def out_def)
next
  case (weather_transport c cep resp v conf err)
  from run_weather_transport [OF weather_transport(2-10), of c] weather_transport
  show ?thesis by (simp add: tr_def out_def http_Error_def)
next
  case (weather_decode c cep resp v conf resp' err)
  from run_weather_decode [OF weather_decode(2-11), of c] weather_decode
  show ?thesis by (simp add: tr_def out_def http_Error_def)
next
  case (success c cep resp v conf resp' w)
  from run_success [OF success(2-11), of c] success
  show ?thesis by (simp add: tr_def out_def)
qed

text \<open>
  ViaCEP unreachable, and WeatherAPI unreachable after a good ViaCEP answer.
\<close>

theorem C5_call_order_witness:
  "snd (handler test_app (mock (Inl (UrlError ''connection refused'')) (ok (temp_c_body 25))) ''/01001000'')
     = Responded \<lparr>Code = 500, ContentType = ''text/plain; charset=utf-8'',
                   Output = Plain (''error fetching from ViaCEP'' @ [CHR 0x0A])\<rparr>
   \<and> calls (fst (handler test_app (mock (Inl (UrlError ''connection refused'')) (ok (temp_c_body 25))) ''/01001000''))
     = [''https://viacep.com.br/ws/01001000/json/'']
   \<and> (\<exists>resp v.
         Do (mock (ok (localidade_body saoPaulo)) (Inl (UrlError ''connection refused'')))
            ''https://viacep.com.br/ws/01001000/json/'' = Inr resp
         \<and> Unmarshal_ViaCEP (Body resp) \<lparr>Localidade = [], Erro = False\<rparr> = Inr v
         \<and> \<not> Erro v \<and> Localidade v \<noteq> []
         \<and> calls (fst (handler test_app (mock (ok (localidade_body saoPaulo)) (Inl (UrlError ''connection refused'')))
                     ''/01001000''))
           = [''https://viacep.com.br/ws/01001000/json/'',
              weatherURL ''test-key'' (QueryEscape (Localidade v))])"
proof -
  let ?down = "mock (Inl (UrlError ''connection refused'')) (ok (temp_c_body 25))"
  let ?half = "mock (ok (localidade_body saoPaulo)) (Inl (UrlError ''connection refused''))"
  have p: "''/01001000'' \<noteq> []" "length (tl ''/01001000'') = 8"
     "\<forall>d \<in> set (tl ''/01001000''). d \<in> set ''0123456789''"
    by simp_all
  have n: "NewRequest ?down (viaCepURL (tl ''/01001000''))"
    by (rule mock_NewRequest)
  have d: "Do ?down (viaCepURL (tl ''/01001000'')) = Inl (UrlError ''connection refused'')"
    by (rule mock_Do_viaCep)
  note geo_down = C5_calls_sequential_at_most_once [where a = test_app and e = ?down and path = "''/01001000''",
      THEN conjunct2, THEN conjunct1, rule_format,
      OF conjI [OF p(1) conjI [OF p(2) conjI [OF p(3) conjI [OF n d]]]]]
  have w: "snd (handler test_app ?half ''/01001000'')
     = Responded \<lparr>Code = 500, ContentType = ''text/plain; charset=utf-8'',
                   Output = Plain (''error fetching from WeatherAPI'' @ [CHR 0x0A])\<rparr>"
    by code_simp
  note weather_down = C5_calls_sequential_at_most_once [where a = test_app and e = ?half and path = "''/01001000''",
      THEN conjunct2, THEN conjunct2, rule_format, OF w]
  from geo_down weather_down show ?thesis
    by (auto simp: viaCepURL_def test_app_def)
qed










text \<open>
  C10. The status code of a provider's response is never read: two environments whose
  answers differ in status codes only give the same run. In particular a ViaCEP answer
  with any status code whose body decodes to an empty or absent \<^verbatim>\<open>localidade\<close> is
  answered with 404 \<^verbatim>\<open>can not find zipcode\<close>.
\<close>

theorem C10_status_code_never_inspected:
  "((\<forall>u. NewRequest e1 u = NewRequest e2 u)
      \<and> (\<forall>u. map_sum id Body (Do e1 u) = map_sum id Body (Do e2 u))
     \<longrightarrow> handler a e1 path = handler a e2 path)
   \<and> (length cep = 8 \<and> (\<forall>d \<in> set cep. d \<in> set ''0123456789'')
      \<and> NewRequest e (viaCepURL cep)
      \<and> Do e (viaCepURL cep) = Inr \<lparr>StatusCode = code, Body = b\<rparr>
      \<and> Unmarshal_ViaCEP b \<lparr>Localidade = [], Erro = False\<rparr> = Inr v
      \<and> Localidade v = []
     \<longrightarrow> snd (handler a e (c # cep)) =
           Responded \<lparr>Code = 404, ContentType = ''text/plain; charset=utf-8'',
                       Output = Plain (''can not find zipcode'' @ [CHR 0x0A])\<rparr>)"
proof (intro conjI impI)
  assume "(\<forall>u. NewRequest e1 u = NewRequest e2 u)
      \<and> (\<forall>u. map_sum id Body (Do e1 u) = map_sum id Body (Do e2 u))"
  then have "handler_body a e1 path = handler_body a e2 path"
    using handler_body_Body by blast
  then show "handler a e1 path = handler a e2 path"
    by (simp add: handler_def)
next
  assume h: "length cep = 8 \<and> (\<forall>d \<in> set cep. d \<in> set ''0123456789'')
      \<and> NewRequest e (viaCepURL cep)
      \<and> Do e (viaCepURL cep) = Inr \<lparr>StatusCode = code, Body = b\<rparr>
      \<and> Unmarshal_ViaCEP b \<lparr>Localidade = [], Erro = False\<rparr> = Inr v
      \<and> Localidade v = []"
  then have m: "MatchString cep"
    unfolding MatchString_digits by simp
  from h have n: "NewRequest e (viaCepURL cep)"
    and d: "Do e (viaCepURL cep) = Inr \<lparr>StatusCode = code, Body = b\<rparr>"
    and l: "Erro v \<or> Localidade v = []"
    by simp_all
  from h have u: "Unmarshal_ViaCEP (Body \<lparr>StatusCode = code, Body = b\<rparr>) \<lparr>Localidade = [], Erro = False\<rparr> = Inr v"
    by simp
  from run_not_found [OF m n d u l, of a c]
  show "snd (handler a e (c # cep)) =
           Responded \<lparr>Code = 404, ContentType = ''text/plain; charset=utf-8'',
                       Output = Plain (''can not find zipcode'' @ [CHR 0x0A])\<rparr>"
    by (simp add: http_Error_def)
qed

text \<open>
  Status 500 with the body \<^verbatim>\<open>{}\<close>.
\<close>

theorem C10_status_code_witness:
  "handler test_app (mock (Inr \<lparr>StatusCode = 200, Body = JSONText (JObject [])\<rparr>) (ok (temp_c_body 25))) ''/01001003''
     = handler test_app (mock (Inr \<lparr>StatusCode = 500, Body = JSONText (JObject [])\<rparr>) (ok (temp_c_body 25))) ''/01001003''
   \<and> snd (handler test_app (mock (Inr \<lparr>StatusCode = 500, Body = JSONText (JObject [])\<rparr>) (ok (temp_c_body 25))) ''/01001003'')
     = Responded \<lparr>Code = 404, ContentType = ''text/plain; charset=utf-8'',
                   Output = Plain (''can not find zipcode'' @ [CHR 0x0A])\<rparr>"
proof -
  let ?e1 = "mock (Inr \<lparr>StatusCode = 200, Body = JSONText (JObject [])\<rparr>) (ok (temp_c_body 25))"
  let ?e2 = "mock (Inr \<lparr>StatusCode = 500, Body = JSONText (JObject [])\<rparr>) (ok (temp_c_body 25))"
  have n: "\<forall>u. NewRequest ?e1 u = NewRequest ?e2 u"
    by (simp add: mock_def)
  have d: "\<forall>u. map_sum id Body (Do ?e1 u) = map_sum id Body (Do ?e2 u)"
    by (simp add: mock_def)
  have len: "length ''01001003'' = 8" and dig: "\<forall>d \<in> set ''01001003''. d \<in> set ''0123456789''"
    by simp_all
  have g: "Do ?e2 (viaCepURL ''01001003'') = Inr \<lparr>StatusCode = 500, Body = JSONText (JObject [])\<rparr>"
    by (simp add: mock_Do_viaCep)
  have u: "Unmarshal_ViaCEP (JSONText (JObject [])) \<lparr>Localidade = [], Erro = False\<rparr>
             = Inr \<lparr>Localidade = [], Erro = False\<rparr>"
    by (simp add: Unmarshal_ViaCEP_def)
  have l: "Localidade \<lparr>Localidade = [], Erro = False\<rparr> = []"
    by simp
  note inst = C10_status_code_never_inspected [where a = test_app and ?e1.0 = ?e1 and ?e2.0 = ?e2
      and path = "''/01001003''" and cep = "''01001003''" and e = ?e2 and code = 500
      and b = "JSONText (JObject [])" and v = "\<lparr>Localidade = [], Erro = False\<rparr>" and c = "CHR ''/''"]
  from inst [THEN conjunct1, rule_format, OF conjI [OF n d]]
    inst [THEN conjunct2, rule_format, OF conjI [OF len conjI [OF dig conjI [OF mock_NewRequest conjI [OF g conjI [OF u l]]]]]]
  show ?thesis by simp
qed

end
